theory Spec2Isabelle
  imports Complex_Main
begin

section \<open>Numbers\<close>

text \<open>
  Every quantity of the game (positions, velocities, timers, timestamps) is a JavaScript
  \<^verbatim>\<open>number\<close>. The development reads them as exact reals: rounding and overflow of
  IEEE doubles are outside the model. Where the source divides by a speed that can be
  zero without a guard (\<^verbatim>\<open>applySpeedLimits\<close>), the JavaScript outcome \<^verbatim>\<open>NaN\<close> is an
  explicit result of the model. The other unguarded divisions are by half the height of a
  paddle, which is never zero in a game.
\<close>

section \<open>engine/types.ts\<close>

text \<open>
  \<^verbatim>\<open>Ball\<close> and \<^verbatim>\<open>Paddle\<close>. The particle trail of a ball is drawing data that no
  function below reads, and is left out. Field names carry a prefix, since \<^verbatim>\<open>x\<close> and
  \<^verbatim>\<open>y\<close> occur in several interfaces.
\<close>

record Ball =
  ball_x :: real
  ball_y :: real
  ball_dx :: real
  ball_dy :: real
  ball_radius :: real

record Paddle =
  pad_x :: real
  pad_y :: real
  pad_width :: real
  pad_height :: real
  pad_speed :: real
  pad_prevY :: real
  pad_velocity :: real

record Vector2D =
  vec_x :: real
  vec_y :: real

record PhysicsConfig =
  ballSpeedMultiplier :: real
  maxBallSpeed :: real
  minBallSpeed :: real
  paddleInfluence :: real
  bounceAngleFactor :: real
  chaosChance :: real
  chaosIntensity :: real

definition DEFAULT_PHYSICS_CONFIG :: PhysicsConfig where
  "DEFAULT_PHYSICS_CONFIG =
     \<lparr> ballSpeedMultiplier = 11 / 10, maxBallSpeed = 15, minBallSpeed = 4,
       paddleInfluence = 4 / 10, bounceAngleFactor = 35 / 10,
       chaosChance = 25 / 100, chaosIntensity = 6 \<rparr>"

section \<open>engine/PhysicsEngine.ts\<close>

definition calculateBallSpeed :: "Ball \<Rightarrow> real" where
  "calculateBallSpeed ball = sqrt (ball_dx ball * ball_dx ball + ball_dy ball * ball_dy ball)"

text \<open>
  The velocity returned by \<^verbatim>\<open>applySpeedLimits\<close>. Both scaling branches divide by
  \<^verbatim>\<open>currentSpeed\<close>. When that is zero, JavaScript computes \<^verbatim>\<open>limit / 0 = \<plusminus>Infinity\<close>
  (or \<^verbatim>\<open>NaN\<close> for a zero limit) and then \<^verbatim>\<open>0 * \<plusminus>Infinity = NaN\<close> for both components,
  since a zero speed means \<^verbatim>\<open>dx = dy = 0\<close>: the result is \<open>NaNVelocity\<close>.
\<close>

datatype Velocity = Velocity (vel_dx: real) (vel_dy: real) | NaNVelocity

definition applySpeedLimits :: "Ball \<Rightarrow> PhysicsConfig \<Rightarrow> Velocity" where
  "applySpeedLimits ball config =
     (let currentSpeed = calculateBallSpeed ball in
      if currentSpeed < minBallSpeed config then
        (if currentSpeed = 0 then NaNVelocity
         else let speedMultiplier = minBallSpeed config / currentSpeed
              in Velocity (ball_dx ball * speedMultiplier) (ball_dy ball * speedMultiplier))
      else if currentSpeed > maxBallSpeed config then
        (if currentSpeed = 0 then NaNVelocity
         else let speedMultiplier = maxBallSpeed config / currentSpeed
              in Velocity (ball_dx ball * speedMultiplier) (ball_dy ball * speedMultiplier))
      else Velocity (ball_dx ball) (ball_dy ball))"

text \<open>The speed of a returned velocity; \<open>None\<close> stands for \<^verbatim>\<open>NaN\<close>.\<close>

fun velocitySpeed :: "Velocity \<Rightarrow> real option" where
  "velocitySpeed (Velocity vx vy) = Some (sqrt (vx * vx + vy * vy))"
| "velocitySpeed NaNVelocity = None"

text \<open>
  \<^verbatim>\<open>calculatePaddleBounce\<close>, with its two random numbers as arguments. The hit position
  divides by half the paddle height, which is 80 or 160 in the game; for a paddle of
  height 0 JavaScript would produce an infinite or undefined value, which the real
  quotient does not show.
\<close>

definition calculatePaddleBounce ::
    "real \<Rightarrow> real \<Rightarrow> Ball \<Rightarrow> real \<Rightarrow> real \<Rightarrow> real \<Rightarrow> PhysicsConfig \<Rightarrow> Velocity" where
  "calculatePaddleBounce rndChaos rndAmount ball paddleY paddleHeight paddleVelocity config =
     (let newDx = - ball_dx ball * ballSpeedMultiplier config;
          newDy1 = ball_dy ball * ballSpeedMultiplier config
                     + paddleVelocity * paddleInfluence config;
          paddleCenterY = paddleY + paddleHeight / 2;
          hitPosition = (ball_y ball - paddleCenterY) / (paddleHeight / 2);
          newDy2 = newDy1 + hitPosition * bounceAngleFactor config;
          newDy3 = (if rndChaos < chaosChance config
                    then newDy2 + (rndAmount - 1 / 2) * chaosIntensity config else newDy2)
      in Velocity newDx (max (- maxBallSpeed config) (min (maxBallSpeed config) newDy3)))"

text \<open>
  The loop of \<^verbatim>\<open>predictBallY\<close> (and of \<^verbatim>\<open>predictBallPosition\<close> in the AI controller,
  which has the same text): reflect the value across 0 and across the canvas height
  until it lies between them. A run that never leaves the loop has the value \<open>None\<close>.
\<close>

partial_function (option) unfoldReflections :: "real \<Rightarrow> real \<Rightarrow> real option" where
  "unfoldReflections canvasHeight predictedY =
     (if predictedY < 0 \<or> predictedY > canvasHeight then
        (if predictedY < 0 then unfoldReflections canvasHeight (- predictedY)
         else if predictedY > canvasHeight
           then unfoldReflections canvasHeight (2 * canvasHeight - predictedY)
         else unfoldReflections canvasHeight predictedY)
      else Some predictedY)"

definition predictBallY :: "Ball \<Rightarrow> real \<Rightarrow> real \<Rightarrow> real option" where
  "predictBallY ball targetX canvasHeight =
     (if ball_dx ball = 0 then Some (ball_y ball)
      else let timeToReach = (targetX - ball_x ball) / ball_dx ball;
               predictedY = ball_y ball + ball_dy ball * timeToReach
           in unfoldReflections canvasHeight predictedY)"

section \<open>ai/AIController.ts\<close>

datatype AIDifficulty = Easy | Medium | Hard

record AIConfig =
  ai_speed :: real
  ai_reactionTime :: real
  ai_accuracy :: real
  ai_predictionEnabled :: bool

fun getAIConfig :: "AIDifficulty \<Rightarrow> AIConfig" where
  "getAIConfig Easy =
     \<lparr> ai_speed = 55 / 10, ai_reactionTime = 12, ai_accuracy = 8 / 10,
       ai_predictionEnabled = False \<rparr>"
| "getAIConfig Medium =
     \<lparr> ai_speed = 65 / 10, ai_reactionTime = 6, ai_accuracy = 9 / 10,
       ai_predictionEnabled = True \<rparr>"
| "getAIConfig Hard =
     \<lparr> ai_speed = 75 / 10, ai_reactionTime = 2, ai_accuracy = 98 / 100,
       ai_predictionEnabled = True \<rparr>"


definition updateAIPaddle :: "Paddle \<Rightarrow> real \<Rightarrow> real \<Rightarrow> AIConfig \<Rightarrow> real" where
  "updateAIPaddle paddle targetY canvasHeight config =
     (let paddleCenter = pad_y paddle + pad_height paddle / 2;
          difference = targetY - paddleCenter
      in if \<bar>difference\<bar> < 2 then pad_y paddle
         else if difference < 0 then max 0 (pad_y paddle - ai_speed config)
         else min (canvasHeight - pad_height paddle) (pad_y paddle + ai_speed config))"

text \<open>
  Successive frames of the AI paddle chasing a fixed target: the position after \<open>n\<close>
  calls of \<^verbatim>\<open>updateAIPaddle\<close>, each fed the position the previous one returned.
\<close>

fun aiPaddleAfter :: "nat \<Rightarrow> Paddle \<Rightarrow> real \<Rightarrow> real \<Rightarrow> AIConfig \<Rightarrow> real" where
  "aiPaddleAfter 0 paddle targetY canvasHeight config = pad_y paddle"
| "aiPaddleAfter (Suc n) paddle targetY canvasHeight config =
     aiPaddleAfter n (paddle\<lparr>pad_y := updateAIPaddle paddle targetY canvasHeight config\<rparr>)
       targetY canvasHeight config"

section \<open>engine/CollisionDetector.ts\<close>

record Rectangle =
  rect_x :: real
  rect_y :: real
  rect_width :: real
  rect_height :: real

record Circle =
  circ_x :: real
  circ_y :: real
  circ_radius :: real

text \<open>\<^verbatim>\<open>CollisionInfo\<close>: the optional fields are absent exactly when nothing collided.\<close>

record CollisionInfo =
  collided :: bool
  penetrationDepth :: "real option"
  normal :: "Vector2D option"
  contactPoint :: "Vector2D option"

definition checkCircleRectCollision :: "Circle \<Rightarrow> Rectangle \<Rightarrow> CollisionInfo" where
  "checkCircleRectCollision circle rect =
     (let closestX = max (rect_x rect) (min (circ_x circle) (rect_x rect + rect_width rect));
          closestY = max (rect_y rect) (min (circ_y circle) (rect_y rect + rect_height rect));
          distanceX = circ_x circle - closestX;
          distanceY = circ_y circle - closestY;
          distanceSquared = distanceX * distanceX + distanceY * distanceY
      in if \<not> (distanceSquared \<le> circ_radius circle * circ_radius circle) then
           \<lparr> collided = False, penetrationDepth = None, normal = None, contactPoint = None \<rparr>
         else
           let distance = sqrt distanceSquared;
               depth = circ_radius circle - distance;
               n = (if distance > 0 then
                      \<lparr> vec_x = distanceX / distance, vec_y = distanceY / distance \<rparr>
                    else
                      \<lparr> vec_x = (if circ_x circle < rect_x rect + rect_width rect / 2
                                 then - 1 else 1),
                        vec_y = 0 \<rparr>)
           in \<lparr> collided = True, penetrationDepth = Some depth, normal = Some n,
                contactPoint = Some \<lparr> vec_x = closestX, vec_y = closestY \<rparr> \<rparr>)"

definition checkCircleCircleCollision :: "Circle \<Rightarrow> Circle \<Rightarrow> CollisionInfo" where
  "checkCircleCircleCollision circle1 circle2 =
     (let dx = circ_x circle2 - circ_x circle1;
          dy = circ_y circle2 - circ_y circle1;
          distance = sqrt (dx * dx + dy * dy);
          combinedRadius = circ_radius circle1 + circ_radius circle2
      in if \<not> (distance < combinedRadius) then
           \<lparr> collided = False, penetrationDepth = None, normal = None, contactPoint = None \<rparr>
         else
           let depth = combinedRadius - distance;
               n = (if distance > 0 then \<lparr> vec_x = dx / distance, vec_y = dy / distance \<rparr>
                    else \<lparr> vec_x = 1, vec_y = 0 \<rparr>)
           in \<lparr> collided = True, penetrationDepth = Some depth, normal = Some n,
                contactPoint = None \<rparr>)"



section \<open>powerups/PowerUpManager.ts\<close>

datatype PowerUpType = BigPaddle | FastBall | MultiBall | Shield

datatype Side = LeftSide | RightSide

record PowerUp =
  pu_id :: real
  pu_type :: PowerUpType
  pu_color :: string
  pu_symbol :: string
  pu_x :: real
  pu_y :: real
  pu_baseX :: real
  pu_baseY :: real
  pu_rotation :: real
  pu_floatOffset :: real
  pu_floatSpeed :: real
  pu_floatRadius :: real
  pu_maxFloatRadius :: real
  pu_spawnTime :: real

definition updatePowerUpAnimation :: "PowerUp \<Rightarrow> real \<Rightarrow> real \<Rightarrow> real \<Rightarrow> PowerUp" where
  "updatePowerUpAnimation powerUp canvasWidth canvasHeight currentTime =
     (let newRotation = pu_rotation powerUp + 5 / 100;
          newFloatOffset = pu_floatOffset powerUp + pu_floatSpeed powerUp;
          timeElapsedSeconds = (currentTime - pu_spawnTime powerUp) / 1000;
          growthFactor = 1 + timeElapsedSeconds / 10;
          newFloatRadius = min (pu_maxFloatRadius powerUp * growthFactor) 80;
          floatX = cos newFloatOffset * newFloatRadius;
          floatY = sin (newFloatOffset * (7 / 10)) * newFloatRadius * (6 / 10);
          margin = 30 + newFloatRadius;
          newX = max margin (min (canvasWidth - margin) (pu_baseX powerUp + floatX));
          newY = max margin (min (canvasHeight - margin) (pu_baseY powerUp + floatY));
          newBaseX = (if newX = margin \<or> newX = canvasWidth - margin then newX
                      else pu_baseX powerUp);
          newBaseY = (if newY = margin \<or> newY = canvasHeight - margin then newY
                      else pu_baseY powerUp)
      in powerUp\<lparr> pu_x := newX, pu_y := newY, pu_baseX := newBaseX, pu_baseY := newBaseY,
           pu_rotation := newRotation, pu_floatOffset := newFloatOffset,
           pu_floatRadius := newFloatRadius \<rparr>)"




section \<open>The hook useGameLogic: the game state\<close>

text \<open>
  The hook is modelled in the text of \<^verbatim>\<open>src/unnamed/part_005\<close>, the version with the
  session counters, whose bounce constants (1.1, 0.4, 3.5, 15, 4) are those of
  \<open>DEFAULT_PHYSICS_CONFIG\<close>; the state object is the one the matching component in
  \<^verbatim>\<open>PongGame.jsx\<close> creates.

  The tick function \<^verbatim>\<open>updateGame\<close> of the hook mutates one shared state object; here
  it takes the state and returns the new one. The state holds what the tick reads to
  decide the ball, the paddles, the power-ups, the effects and the score. Fields that are
  only written for display or bookkeeping (particle trails, screen shake, session
  counters, achievements, experience points, the \<^verbatim>\<open>bobOffset\<close> of a power-up) influence
  none of these and are left out, together with the sound callbacks.
\<close>

record BigPaddleEffect =
  bp_active :: bool
  bp_timeLeft :: real
  bp_player :: "Side option"

record FastBallEffect =
  fb_active :: bool
  fb_timeLeft :: real

record MultiBallEffect =
  mb_active :: bool
  mb_timeLeft :: real
  mb_extraBalls :: "Ball list"

record ShieldEffect =
  sh_active :: bool
  sh_uses :: real
  sh_player :: "Side option"

record ActivePowerUps =
  bigPaddle :: BigPaddleEffect
  fastBall :: FastBallEffect
  multiBall :: MultiBallEffect
  shield :: ShieldEffect

record Touch =
  touch_active :: bool
  touch_startY :: real
  touch_currentY :: real

record AI =
  ai_enabled :: bool
  ai_difficulty :: AIDifficulty
  ai_targetY :: real
  ai_lastReactionTime :: real

record GameState =
  gs_ball :: Ball
  gs_paddleLeft :: Paddle
  gs_paddleRight :: Paddle
  gs_canvasWidth :: real
  gs_canvasHeight :: real
  gs_keys :: "string \<Rightarrow> bool"
  gs_touchLeft :: Touch
  gs_touchRight :: Touch
  gs_scoreLeft :: int
  gs_scoreRight :: int
  gs_gameWinner :: "Side option"
  gs_ai :: AI
  gs_powerUps :: "PowerUp list"
  gs_activePowerUps :: ActivePowerUps
  gs_powerUpSpawnTimer :: real

text \<open>
  What a tick takes from outside: the clock (\<^verbatim>\<open>Date.now()\<close>, read once per tick here)
  and one field for every place where the source calls \<^verbatim>\<open>Math.random()\<close>, which
  returns a number in \<open>[0, 1)\<close>.
\<close>

record Env =
  now :: real
  rndGameResetDx :: real
  rndGameResetDy :: real
  rndSpawnType :: real
  rndSpawnX :: real
  rndSpawnY :: real
  rndFloatOffset :: real
  rndFloatSpeed :: real
  rndFloatRadius :: real
  rndMaxFloatRadius :: real
  rndExtra1Dx :: real
  rndExtra1Dy :: real
  rndExtra2Dx :: real
  rndExtra2Dy :: real
  rndSpawnTimer :: real
  rndAIError :: real
  rndChaosLeft :: real
  rndChaosLeftAmount :: real
  rndChaosRight :: real
  rndChaosRightAmount :: real
  rndScoreResetDx :: real
  rndScoreResetDy :: real

text \<open>The state object that \<^verbatim>\<open>PongGame.jsx\<close> creates; the canvas size depends on the window.\<close>

definition initialGameState :: "real \<Rightarrow> real \<Rightarrow> GameState" where
  "initialGameState width height =
     \<lparr> gs_ball = \<lparr> ball_x = 400, ball_y = 200, ball_dx = 4, ball_dy = 3, ball_radius = 8 \<rparr>,
       gs_paddleLeft = \<lparr> pad_x = 20, pad_y = 150, pad_width = 12, pad_height = 80,
         pad_speed = 45 / 10, pad_prevY = 150, pad_velocity = 0 \<rparr>,
       gs_paddleRight = \<lparr> pad_x = 770, pad_y = 150, pad_width = 12, pad_height = 80,
         pad_speed = 45 / 10, pad_prevY = 150, pad_velocity = 0 \<rparr>,
       gs_canvasWidth = width,
       gs_canvasHeight = height,
       gs_keys = (\<lambda>k. False),
       gs_touchLeft = \<lparr> touch_active = False, touch_startY = 0, touch_currentY = 0 \<rparr>,
       gs_touchRight = \<lparr> touch_active = False, touch_startY = 0, touch_currentY = 0 \<rparr>,
       gs_scoreLeft = 0,
       gs_scoreRight = 0,
       gs_gameWinner = None,
       gs_ai = \<lparr> ai_enabled = False, ai_difficulty = Medium, ai_targetY = 200,
         ai_lastReactionTime = 0 \<rparr>,
       gs_powerUps = [],
       gs_activePowerUps =
         \<lparr> bigPaddle = \<lparr> bp_active = False, bp_timeLeft = 0, bp_player = None \<rparr>,
           fastBall = \<lparr> fb_active = False, fb_timeLeft = 0 \<rparr>,
           multiBall = \<lparr> mb_active = False, mb_timeLeft = 0, mb_extraBalls = [] \<rparr>,
           shield = \<lparr> sh_active = False, sh_uses = 0, sh_player = None \<rparr> \<rparr>,
       gs_powerUpSpawnTimer = 420 \<rparr>"

section \<open>The hook useGameLogic: reset, AI, power-ups\<close>

definition resetBall :: "real \<Rightarrow> real \<Rightarrow> GameState \<Rightarrow> GameState" where
  "resetBall rndDx rndDy gameState =
     gameState\<lparr> gs_ball := (gs_ball gameState)
       \<lparr> ball_x := gs_canvasWidth gameState / 2,
         ball_y := gs_canvasHeight gameState / 2,
         ball_dx := (if rndDx > 1 / 2 then 6 else - 6),
         ball_dy := (rndDy * 6 - 3) * (8 / 10) \<rparr> \<rparr>"

definition resetGame :: "Env \<Rightarrow> GameState \<Rightarrow> GameState" where
  "resetGame env gameState =
     resetBall (rndGameResetDx env) (rndGameResetDy env)
       (gameState\<lparr> gs_scoreLeft := 0, gs_scoreRight := 0, gs_gameWinner := None,
          gs_powerUps := [], gs_powerUpSpawnTimer := 180,
          gs_activePowerUps :=
            \<lparr> bigPaddle = \<lparr> bp_active = False, bp_timeLeft = 0, bp_player = None \<rparr>,
              fastBall = \<lparr> fb_active = False, fb_timeLeft = 0 \<rparr>,
              multiBall = \<lparr> mb_active = False, mb_timeLeft = 0, mb_extraBalls = [] \<rparr>,
              shield = \<lparr> sh_active = False, sh_uses = 0, sh_player = None \<rparr> \<rparr> \<rparr>)"

text \<open>
  \<^verbatim>\<open>getAISettings\<close> switches on the difficulty string; the user interface only ever
  stores one of the three tier names, so its \<^verbatim>\<open>default\<close> branch is not taken.
\<close>

fun getAISettings :: "AIDifficulty \<Rightarrow> AIConfig" where
  "getAISettings Easy =
     \<lparr> ai_speed = 55 / 10, ai_reactionTime = 12, ai_accuracy = 8 / 10,
       ai_predictionEnabled = False \<rparr>"
| "getAISettings Medium =
     \<lparr> ai_speed = 65 / 10, ai_reactionTime = 6, ai_accuracy = 9 / 10,
       ai_predictionEnabled = True \<rparr>"
| "getAISettings Hard =
     \<lparr> ai_speed = 75 / 10, ai_reactionTime = 2, ai_accuracy = 98 / 100,
       ai_predictionEnabled = True \<rparr>"

text \<open>
  \<^verbatim>\<open>updateAI\<close>. The hook has its own \<^verbatim>\<open>predictBallY\<close>, with the text of the
  engine's function and the canvas height taken from the state, so the engine's
  definition stands for it. The call returns \<open>None\<close> when the reflection loop of the
  prediction never ends.
\<close>

definition moveAIPaddle :: "AIConfig \<Rightarrow> GameState \<Rightarrow> GameState" where
  "moveAIPaddle settings gameState =
     (let right = gs_paddleRight gameState;
          paddleCenterY = pad_y right + pad_height right / 2;
          difference = ai_targetY (gs_ai gameState) - paddleCenterY
      in if \<bar>difference\<bar> > 5 then
           (let prevY = pad_y right;
                newY = (if difference < 0 then max 0 (pad_y right - ai_speed settings)
                        else min (gs_canvasHeight gameState - pad_height right)
                               (pad_y right + ai_speed settings))
            in gameState\<lparr> gs_paddleRight :=
                 right\<lparr> pad_y := newY, pad_velocity := newY - prevY \<rparr> \<rparr>)
         else gameState)"

definition updateAI :: "Env \<Rightarrow> GameState \<Rightarrow> GameState option" where
  "updateAI env gameState =
     (if \<not> ai_enabled (gs_ai gameState) then Some gameState
      else
        let settings = getAISettings (ai_difficulty (gs_ai gameState));
            ball = gs_ball gameState
        in if ball_dx ball > 0 then
             (if now env - ai_lastReactionTime (gs_ai gameState)
                   > ai_reactionTime settings * (1667 / 100) then
                (case (if ai_predictionEnabled settings
                       then predictBallY ball (pad_x (gs_paddleRight gameState))
                              (gs_canvasHeight gameState)
                       else Some (ball_y ball)) of
                   None \<Rightarrow> None
                 | Some predicted \<Rightarrow>
                     let inaccuracy = (1 - ai_accuracy settings) * 50;
                         targetY = predicted + (rndAIError env - 1 / 2) * inaccuracy
                     in Some (moveAIPaddle settings
                          (gameState\<lparr> gs_ai := (gs_ai gameState)
                             \<lparr> ai_targetY := targetY, ai_lastReactionTime := now env \<rparr> \<rparr>)))
              else Some (moveAIPaddle settings gameState))
           else Some gameState)"

definition checkPaddleCollision :: "Ball \<Rightarrow> Paddle \<Rightarrow> Side \<Rightarrow> GameState \<Rightarrow> bool" where
  "checkPaddleCollision ball paddle player gameState =
     (let isBig = bp_active (bigPaddle (gs_activePowerUps gameState))
                  \<and> bp_player (bigPaddle (gs_activePowerUps gameState)) = Some player;
          paddleHeight = (if isBig then pad_height paddle * 2 else pad_height paddle);
          paddleY = (if isBig then pad_y paddle - pad_height paddle / 2 else pad_y paddle);
          closestX = max (pad_x paddle) (min (ball_x ball) (pad_x paddle + pad_width paddle));
          closestY = max paddleY (min (ball_y ball) (paddleY + paddleHeight));
          distanceX = ball_x ball - closestX;
          distanceY = ball_y ball - closestY;
          distanceSquared = distanceX * distanceX + distanceY * distanceY
      in distanceSquared \<le> ball_radius ball * ball_radius ball)"

text \<open>
  \<^verbatim>\<open>spawnPowerUp\<close> picks \<^verbatim>\<open>powerUpTypes[Math.floor(Math.random() * 4)]\<close>; for a
  random number in \<open>[0, 1)\<close> the index is in range.
\<close>

definition powerUpTypes :: "(PowerUpType \<times> string \<times> string) list" where
  "powerUpTypes =
     [(BigPaddle, ''#3b82f6'', ''B''), (FastBall, ''#ef4444'', ''F''),
      (MultiBall, ''#f59e0b'', ''M''), (Shield, ''#10b981'', ''S'')]"

definition spawnPowerUp :: "Env \<Rightarrow> GameState \<Rightarrow> GameState" where
  "spawnPowerUp env gameState =
     (let randomType = powerUpTypes ! nat \<lfloor>rndSpawnType env * real (length powerUpTypes)\<rfloor>;
          px = rndSpawnX env * (gs_canvasWidth gameState - 300) + 150;
          py = rndSpawnY env * (gs_canvasHeight gameState - 150) + 75;
          powerUp =
            \<lparr> pu_id = now env, pu_type = fst randomType, pu_color = fst (snd randomType),
              pu_symbol = snd (snd randomType), pu_x = px, pu_y = py,
              pu_baseX = px, pu_baseY = py, pu_rotation = 0,
              pu_floatOffset = rndFloatOffset env * pi * 2,
              pu_floatSpeed = 2 / 100 + rndFloatSpeed env * (3 / 100),
              pu_floatRadius = 20 + rndFloatRadius env * 15,
              pu_maxFloatRadius = 20 + rndMaxFloatRadius env * 15,
              pu_spawnTime = now env \<rparr>
      in gameState\<lparr> gs_powerUps := gs_powerUps gameState @ [powerUp] \<rparr>)"

definition activatePowerUp :: "Env \<Rightarrow> PowerUp \<Rightarrow> Side option \<Rightarrow> GameState \<Rightarrow> GameState" where
  "activatePowerUp env powerUp player gameState =
     (let active = gs_activePowerUps gameState;
          ball = gs_ball gameState;
          active' =
            (case pu_type powerUp of
               BigPaddle \<Rightarrow>
                 active\<lparr> bigPaddle :=
                   \<lparr> bp_active = True, bp_timeLeft = 480, bp_player = player \<rparr> \<rparr>
             | FastBall \<Rightarrow>
                 active\<lparr> fastBall := \<lparr> fb_active = True, fb_timeLeft = 360 \<rparr> \<rparr>
             | MultiBall \<Rightarrow>
                 if \<not> mb_active (multiBall active) then
                   active\<lparr> multiBall :=
                     \<lparr> mb_active = True, mb_timeLeft = 600,
                       mb_extraBalls =
                         [\<lparr> ball_x = ball_x ball + 50, ball_y = ball_y ball,
                            ball_dx = - ball_dx ball + (rndExtra1Dx env - 1 / 2) * 2,
                            ball_dy = ball_dy ball + (rndExtra1Dy env - 1 / 2) * 2,
                            ball_radius = 6 \<rparr>,
                          \<lparr> ball_x = ball_x ball - 50, ball_y = ball_y ball,
                            ball_dx = - ball_dx ball + (rndExtra2Dx env - 1 / 2) * 2,
                            ball_dy = ball_dy ball + (rndExtra2Dy env - 1 / 2) * 2,
                            ball_radius = 6 \<rparr>] \<rparr> \<rparr>
                 else active
             | Shield \<Rightarrow>
                 active\<lparr> shield :=
                   \<lparr> sh_active = True, sh_uses = 1, sh_player = player \<rparr> \<rparr>)
      in gameState\<lparr> gs_activePowerUps := active',
           gs_powerUps := filter (\<lambda>p. pu_id p \<noteq> pu_id powerUp) (gs_powerUps gameState),
           gs_powerUpSpawnTimer := (2 + rndSpawnTimer env * 8) * 60 \<rparr>)"

section \<open>The hook useGameLogic: the steps of updateGame\<close>

definition spawnStep :: "Env \<Rightarrow> GameState \<Rightarrow> GameState" where
  "spawnStep env gameState =
     (let ticked = gameState\<lparr> gs_powerUpSpawnTimer := gs_powerUpSpawnTimer gameState - 1 \<rparr>
      in if gs_powerUpSpawnTimer ticked \<le> 0 \<and> length (gs_powerUps ticked) = 0
         then spawnPowerUp env ticked else ticked)"

definition animatePowerUp :: "Env \<Rightarrow> GameState \<Rightarrow> PowerUp \<Rightarrow> PowerUp" where
  "animatePowerUp env gameState powerUp =
     (let rotation = pu_rotation powerUp + 5 / 100;
          floatOffset = pu_floatOffset powerUp + pu_floatSpeed powerUp;
          timeElapsed = (now env - pu_spawnTime powerUp) / 1000;
          growthFactor = 1 + timeElapsed / 10;
          floatRadius = min (pu_maxFloatRadius powerUp * growthFactor) 80;
          floatX = cos floatOffset * floatRadius;
          floatY = sin (floatOffset * (7 / 10)) * floatRadius * (6 / 10);
          margin = 30 + floatRadius;
          px = max margin (min (gs_canvasWidth gameState - margin) (pu_baseX powerUp + floatX));
          py = max margin (min (gs_canvasHeight gameState - margin) (pu_baseY powerUp + floatY));
          baseX = (if px = margin \<or> px = gs_canvasWidth gameState - margin then px
                   else pu_baseX powerUp);
          baseY = (if py = margin \<or> py = gs_canvasHeight gameState - margin then py
                   else pu_baseY powerUp)
      in powerUp\<lparr> pu_x := px, pu_y := py, pu_baseX := baseX, pu_baseY := baseY,
           pu_rotation := rotation, pu_floatOffset := floatOffset,
           pu_floatRadius := floatRadius \<rparr>)"

definition animateStep :: "Env \<Rightarrow> GameState \<Rightarrow> GameState" where
  "animateStep env gameState =
     gameState\<lparr> gs_powerUps := map (animatePowerUp env gameState) (gs_powerUps gameState) \<rparr>"

text \<open>
  The loop over the keys of \<^verbatim>\<open>activePowerUps\<close>: the three effects with a
  \<^verbatim>\<open>timeLeft\<close> count down and end at zero; the shield has no \<^verbatim>\<open>timeLeft\<close> and is
  skipped.
\<close>

definition effectsStep :: "GameState \<Rightarrow> GameState" where
  "effectsStep gameState =
     (let active = gs_activePowerUps gameState;
          big = bigPaddle active;
          big' = (if bp_active big then
                    (let t = bp_timeLeft big - 1
                     in big\<lparr> bp_timeLeft := t, bp_active := \<not> t \<le> 0 \<rparr>)
                  else big);
          fast = fastBall active;
          fast' = (if fb_active fast then
                     (let t = fb_timeLeft fast - 1
                      in fast\<lparr> fb_timeLeft := t, fb_active := \<not> t \<le> 0 \<rparr>)
                   else fast);
          multi = multiBall active;
          multi' = (if mb_active multi then
                      (let t = mb_timeLeft multi - 1
                       in if t \<le> 0
                          then multi\<lparr> mb_timeLeft := t, mb_active := False, mb_extraBalls := [] \<rparr>
                          else multi\<lparr> mb_timeLeft := t \<rparr>)
                    else multi)
      in gameState\<lparr> gs_activePowerUps :=
           active\<lparr> bigPaddle := big', fastBall := fast', multiBall := multi' \<rparr> \<rparr>)"

text \<open>Keyboard and touch movement of one paddle, as written for the left and the right one.\<close>

definition playerPaddle :: "bool \<Rightarrow> bool \<Rightarrow> Touch \<Rightarrow> real \<Rightarrow> Paddle \<Rightarrow> Paddle \<times> Touch" where
  "playerPaddle up down touch canvasHeight paddle =
     (let y1 = (if up then max 0 (pad_y paddle - pad_speed paddle) else pad_y paddle);
          y2 = (if down then min (canvasHeight - pad_height paddle) (y1 + pad_speed paddle)
                else y1)
      in if touch_active touch then
           (let touchDelta = touch_currentY touch - touch_startY touch;
                newY = y2 + touchDelta * (8 / 10)
            in (paddle\<lparr> pad_y := max 0 (min (canvasHeight - pad_height paddle) newY) \<rparr>,
                touch\<lparr> touch_startY := touch_currentY touch \<rparr>))
         else (paddle\<lparr> pad_y := y2 \<rparr>, touch))"

definition leftPaddleStep :: "GameState \<Rightarrow> GameState" where
  "leftPaddleStep gameState =
     (let keys = gs_keys gameState;
          left = (gs_paddleLeft gameState)\<lparr> pad_prevY := pad_y (gs_paddleLeft gameState) \<rparr>;
          moved = playerPaddle (keys ''w'' \<or> keys ''W'') (keys ''s'' \<or> keys ''S'')
                    (gs_touchLeft gameState) (gs_canvasHeight gameState) left;
          left' = (fst moved)\<lparr> pad_velocity := pad_y (fst moved) - pad_prevY (fst moved) \<rparr>
      in gameState\<lparr> gs_paddleLeft := left', gs_touchLeft := snd moved \<rparr>)"

definition rightPaddleStep :: "Env \<Rightarrow> GameState \<Rightarrow> GameState option" where
  "rightPaddleStep env gameState =
     (let keys = gs_keys gameState;
          right = (gs_paddleRight gameState)\<lparr> pad_prevY := pad_y (gs_paddleRight gameState) \<rparr>;
          marked = gameState\<lparr> gs_paddleRight := right \<rparr>;
          setVelocity = (\<lambda>g. g\<lparr> gs_paddleRight := (gs_paddleRight g)
            \<lparr> pad_velocity := pad_y (gs_paddleRight g) - pad_prevY (gs_paddleRight g) \<rparr> \<rparr>)
      in if \<not> ai_enabled (gs_ai gameState) then
           (let moved = playerPaddle (keys ''ArrowUp'') (keys ''ArrowDown'')
                          (gs_touchRight gameState) (gs_canvasHeight gameState) right
            in Some (setVelocity
                 (marked\<lparr> gs_paddleRight := fst moved, gs_touchRight := snd moved \<rparr>)))
         else map_option setVelocity (updateAI env marked))"

definition speedMultiplierOf :: "GameState \<Rightarrow> real" where
  "speedMultiplierOf gameState =
     (if fb_active (fastBall (gs_activePowerUps gameState)) then 15 / 10 else 1)"

definition advance :: "real \<Rightarrow> Ball \<Rightarrow> Ball" where
  "advance speedMultiplier b =
     b\<lparr> ball_x := ball_x b + ball_dx b * speedMultiplier,
        ball_y := ball_y b + ball_dy b * speedMultiplier \<rparr>"

definition moveStep :: "GameState \<Rightarrow> GameState" where
  "moveStep gameState =
     (let speedMultiplier = speedMultiplierOf gameState;
          active = gs_activePowerUps gameState;
          multi = multiBall active;
          multi' = (if mb_active multi
                    then multi\<lparr> mb_extraBalls := map (advance speedMultiplier) (mb_extraBalls multi) \<rparr>
                    else multi)
      in gameState\<lparr> gs_ball := advance speedMultiplier (gs_ball gameState),
           gs_activePowerUps := active\<lparr> multiBall := multi' \<rparr> \<rparr>)"

text \<open>
  The pickup loop runs over the floating power-ups in order and stops at the first one
  within reach of the primary ball.
\<close>

fun firstPowerUpHit :: "Ball \<Rightarrow> PowerUp list \<Rightarrow> PowerUp option" where
  "firstPowerUpHit b [] = None"
| "firstPowerUpHit b (powerUp # rest) =
     (let dx = ball_x b - pu_x powerUp;
          dy = ball_y b - pu_y powerUp;
          distance = sqrt (dx * dx + dy * dy)
      in if distance < ball_radius b + 20 then Some powerUp else firstPowerUpHit b rest)"

definition pickupStep :: "Env \<Rightarrow> GameState \<Rightarrow> GameState" where
  "pickupStep env gameState =
     (case firstPowerUpHit (gs_ball gameState) (gs_powerUps gameState) of
        None \<Rightarrow> gameState
      | Some powerUp \<Rightarrow>
          let player = (if ball_dx (gs_ball gameState) > 0 then RightSide else LeftSide)
          in activatePowerUp env powerUp (Some player) gameState)"

definition hitsWall :: "real \<Rightarrow> Ball \<Rightarrow> bool" where
  "hitsWall canvasHeight b \<longleftrightarrow>
     ball_y b - ball_radius b \<le> 0 \<or> ball_y b + ball_radius b \<ge> canvasHeight"

definition wallStep :: "GameState \<Rightarrow> GameState" where
  "wallStep gameState =
     (let b = gs_ball gameState
      in if hitsWall (gs_canvasHeight gameState) b
         then gameState\<lparr> gs_ball := b\<lparr> ball_dy := - ball_dy b \<rparr> \<rparr>
         else gameState)"

text \<open>
  The response of the primary ball to a paddle, the same text for both sides apart from
  the face the ball is put against (\<open>faceX\<close>): reverse and accelerate, add the paddle's
  momentum and the deflection by hit position, clamp \<^verbatim>\<open>dy\<close>, add the random nudge, and
  raise a speed below 4 to 4. The new \<^verbatim>\<open>dx\<close> is not zero, since the old one was not,
  so the division is by a positive speed.
\<close>

definition bouncePrimary :: "real \<Rightarrow> real \<Rightarrow> real \<Rightarrow> Paddle \<Rightarrow> Ball \<Rightarrow> Ball" where
  "bouncePrimary rndChaos rndAmount faceX paddle b =
     (let dx1 = - ball_dx b * (11 / 10);
          dy1 = ball_dy b * (11 / 10);
          paddleInfluence = 4 / 10;
          dy2 = dy1 + pad_velocity paddle * paddleInfluence;
          hitPosition = (ball_y b - (pad_y paddle + pad_height paddle / 2))
                          / (pad_height paddle / 2);
          dy3 = dy2 + hitPosition * (35 / 10);
          dy4 = max (- 15) (min 15 dy3);
          dy5 = (if rndChaos < 25 / 100 then dy4 + (rndAmount - 1 / 2) * 6 else dy4);
          currentSpeed = sqrt (dx1 * dx1 + dy5 * dy5)
      in if currentSpeed < 4 then
           (let speedMultiplier = 4 / currentSpeed
            in b\<lparr> ball_x := faceX, ball_dx := dx1 * speedMultiplier,
                 ball_dy := dy5 * speedMultiplier \<rparr>)
         else b\<lparr> ball_x := faceX, ball_dx := dx1, ball_dy := dy5 \<rparr>)"

definition hitsLeftPaddle :: "GameState \<Rightarrow> bool" where
  "hitsLeftPaddle gameState \<longleftrightarrow>
     ball_dx (gs_ball gameState) < 0
     \<and> checkPaddleCollision (gs_ball gameState) (gs_paddleLeft gameState) LeftSide gameState"

definition hitsRightPaddle :: "GameState \<Rightarrow> bool" where
  "hitsRightPaddle gameState \<longleftrightarrow>
     ball_dx (gs_ball gameState) > 0
     \<and> checkPaddleCollision (gs_ball gameState) (gs_paddleRight gameState) RightSide gameState"

definition leftBounceStep :: "Env \<Rightarrow> GameState \<Rightarrow> GameState" where
  "leftBounceStep env gameState =
     (let b = gs_ball gameState; left = gs_paddleLeft gameState
      in if hitsLeftPaddle gameState then
           gameState\<lparr> gs_ball := bouncePrimary (rndChaosLeft env) (rndChaosLeftAmount env)
             (pad_x left + pad_width left + ball_radius b) left b \<rparr>
         else gameState)"

definition rightBounceStep :: "Env \<Rightarrow> GameState \<Rightarrow> GameState" where
  "rightBounceStep env gameState =
     (let b = gs_ball gameState; right = gs_paddleRight gameState
      in if hitsRightPaddle gameState then
           gameState\<lparr> gs_ball := bouncePrimary (rndChaosRight env) (rndChaosRightAmount env)
             (pad_x right - ball_radius b) right b \<rparr>
         else gameState)"

text \<open>The extra balls: wall, left paddle, right paddle, each with its own constants.\<close>

definition bounceExtra :: "real \<Rightarrow> Paddle \<Rightarrow> Ball \<Rightarrow> Ball" where
  "bounceExtra faceX paddle b =
     (let paddleInfluence = 25 / 100;
          dy1 = ball_dy b + pad_velocity paddle * paddleInfluence;
          hitPosition = (ball_y b - (pad_y paddle + pad_height paddle / 2))
                          / (pad_height paddle / 2);
          dy2 = dy1 + hitPosition * (15 / 10)
      in b\<lparr> ball_x := faceX, ball_dx := - ball_dx b, ball_dy := max (- 6) (min 6 dy2) \<rparr>)"

definition extraBallCollide :: "GameState \<Rightarrow> Ball \<Rightarrow> Ball" where
  "extraBallCollide gameState extraBall =
     (let left = gs_paddleLeft gameState; right = gs_paddleRight gameState;
          b1 = (if hitsWall (gs_canvasHeight gameState) extraBall
                then extraBall\<lparr> ball_dy := - ball_dy extraBall \<rparr> else extraBall);
          b2 = (if ball_dx b1 < 0 \<and> checkPaddleCollision b1 left LeftSide gameState
                then bounceExtra (pad_x left + pad_width left + ball_radius b1) left b1
                else b1)
      in if ball_dx b2 > 0 \<and> checkPaddleCollision b2 right RightSide gameState
         then bounceExtra (pad_x right - ball_radius b2) right b2
         else b2)"

definition extraBallsStep :: "GameState \<Rightarrow> GameState" where
  "extraBallsStep gameState =
     (let active = gs_activePowerUps gameState; multi = multiBall active
      in if mb_active multi then
           gameState\<lparr> gs_activePowerUps := active\<lparr> multiBall :=
             multi\<lparr> mb_extraBalls := map (extraBallCollide gameState) (mb_extraBalls multi) \<rparr> \<rparr> \<rparr>
         else gameState)"

definition scoreStep :: "Env \<Rightarrow> GameState \<Rightarrow> GameState" where
  "scoreStep env gameState =
     (if ball_x (gs_ball gameState) < 0 then
        resetBall (rndScoreResetDx env) (rndScoreResetDy env)
          (gameState\<lparr> gs_scoreRight := gs_scoreRight gameState + 1 \<rparr>)
      else if ball_x (gs_ball gameState) > gs_canvasWidth gameState then
        resetBall (rndScoreResetDx env) (rndScoreResetDy env)
          (gameState\<lparr> gs_scoreLeft := gs_scoreLeft gameState + 1 \<rparr>)
      else gameState)"

definition winStep :: "GameState \<Rightarrow> GameState" where
  "winStep gameState =
     (if gs_scoreLeft gameState \<ge> 11 then gameState\<lparr> gs_gameWinner := Some LeftSide \<rparr>
      else if gs_scoreRight gameState \<ge> 11 then gameState\<lparr> gs_gameWinner := Some RightSide \<rparr>
      else gameState)"

section \<open>The hook useGameLogic: updateGame\<close>

definition resetKeyStep :: "Env \<Rightarrow> GameState \<Rightarrow> GameState" where
  "resetKeyStep env gameState =
     (if gs_keys gameState ''r'' \<or> gs_keys gameState ''R'' then
        (let fresh = resetGame env gameState
         in fresh\<lparr> gs_keys := (gs_keys fresh)(''r'' := False, ''R'' := False) \<rparr>)
      else gameState)"

definition updateGame :: "Env \<Rightarrow> GameState \<Rightarrow> GameState option" where
  "updateGame env gameState =
     (let started = resetKeyStep env gameState
      in if gs_gameWinner started \<noteq> None then Some started
         else
           map_option
             (\<lambda>g. winStep (scoreStep env (extraBallsStep (rightBounceStep env
                    (leftBounceStep env (wallStep (pickupStep env (moveStep g))))))))
             (rightPaddleStep env
                (leftPaddleStep (effectsStep (animateStep env (spawnStep env started))))))"


text \<open>
  Between two ticks the event handlers of \<^verbatim>\<open>PongGame.jsx\<close> write the keys, the two
  touch records and the AI switch and tier into the state; nothing else writes it.
\<close>

definition handleEvents ::
    "(string \<Rightarrow> bool) \<Rightarrow> Touch \<Rightarrow> Touch \<Rightarrow> bool \<Rightarrow> AIDifficulty \<Rightarrow> GameState \<Rightarrow> GameState" where
  "handleEvents keys touchLeft touchRight aiOn tier gameState =
     gameState\<lparr> gs_keys := keys, gs_touchLeft := touchLeft, gs_touchRight := touchRight,
       gs_ai := (gs_ai gameState)\<lparr> ai_enabled := aiOn, ai_difficulty := tier \<rparr> \<rparr>"

text \<open>
  The states of a game: a reset of the state object the component creates, and from
  there any number of ticks, handler events and further resets.
\<close>

inductive reachable :: "GameState \<Rightarrow> bool" where
  start: "reachable (resetGame env (initialGameState width height))"
| reset: "reachable gameState \<Longrightarrow> reachable (resetGame env gameState)"
| events: "reachable gameState \<Longrightarrow>
            reachable (handleEvents keys touchLeft touchRight aiOn tier gameState)"
| tick: "reachable gameState \<Longrightarrow> updateGame env gameState = Some next \<Longrightarrow> reachable next"

text \<open>The heights of the two paddles, which the bounces divide by.\<close>

definition paddleHeights :: "GameState \<Rightarrow> real \<times> real" where
  "paddleHeights gameState =
     (pad_height (gs_paddleLeft gameState), pad_height (gs_paddleRight gameState))"

section \<open>Concrete inputs\<close>

text \<open>
  Outside values under which nothing random happens: every random number is one half, so
  a reset serves the ball to the left with no vertical speed and no bounce gets the
  random nudge.
\<close>

definition quietEnv :: Env where
  "quietEnv =
     \<lparr> now = 0, rndGameResetDx = 1 / 2, rndGameResetDy = 1 / 2, rndSpawnType = 1 / 2,
       rndSpawnX = 1 / 2, rndSpawnY = 1 / 2, rndFloatOffset = 1 / 2, rndFloatSpeed = 1 / 2,
       rndFloatRadius = 1 / 2, rndMaxFloatRadius = 1 / 2, rndExtra1Dx = 1 / 2,
       rndExtra1Dy = 1 / 2, rndExtra2Dx = 1 / 2, rndExtra2Dy = 1 / 2, rndSpawnTimer = 1 / 2,
       rndAIError = 1 / 2, rndChaosLeft = 1 / 2, rndChaosLeftAmount = 1 / 2,
       rndChaosRight = 1 / 2, rndChaosRightAmount = 1 / 2, rndScoreResetDx = 1 / 2,
       rndScoreResetDy = 1 / 2 \<rparr>"





text \<open>A ball at rest, the AI paddle of the oscillation, and two sample power-ups.\<close>

definition restingBall :: Ball where
  "restingBall = \<lparr> ball_x = 0, ball_y = 0, ball_dx = 0, ball_dy = 0, ball_radius = 8 \<rparr>"

definition aiPaddle :: Paddle where
  "aiPaddle = \<lparr> pad_x = 770, pad_y = 300, pad_width = 12, pad_height = 80,
     pad_speed = 9 / 2, pad_prevY = 300, pad_velocity = 0 \<rparr>"

definition samplePowerUp :: "PowerUpType \<Rightarrow> real \<Rightarrow> PowerUp" where
  "samplePowerUp kind maxRadius =
     \<lparr> pu_id = 1, pu_type = kind, pu_color = ''#f59e0b'', pu_symbol = ''M'',
       pu_x = 400, pu_y = 200, pu_baseX = 400, pu_baseY = 200, pu_rotation = 0,
       pu_floatOffset = 0, pu_floatSpeed = 1 / 50, pu_floatRadius = maxRadius,
       pu_maxFloatRadius = maxRadius, pu_spawnTime = 0 \<rparr>"

text \<open>A game in which a multi-ball power-up floats on the ball while multi-ball is active.\<close>

definition multiBallGame :: GameState where
  "multiBallGame =
     activatePowerUp quietEnv (samplePowerUp MultiBall 20) (Some LeftSide)
       ((initialGameState 800 400)\<lparr> gs_powerUps := [samplePowerUp MultiBall 20] \<rparr>)
     \<lparr> gs_powerUps := [samplePowerUp MultiBall 20] \<rparr>"

section \<open>Speed limits\<close>

lemma sqrt_of_scaled:
  assumes s: "s = sqrt (a * a + b * b)" and nz: "s \<noteq> 0" and m: "0 \<le> m"
  shows "sqrt (a * (m / s) * (a * (m / s)) + b * (m / s) * (b * (m / s))) = m"
proof -
  have "0 \<le> s" using s by simp
  with nz have spos: "0 < s" by simp
  have ss: "s * s = a * a + b * b" using s by simp
  define k where "k = m / s"
  have ks: "k * s = m" using spos by (simp add: k_def)
  have "a * k * (a * k) + b * k * (b * k) = (k * s) * (k * s)"
    using ss by (simp add: algebra_simps)
  also have "\<dots> = m * m" using ks by simp
  finally show ?thesis using m by (simp add: k_def)
qed

text \<open>
  What \<^verbatim>\<open>applySpeedLimits\<close> does for a ball that moves, under limits with
  \<open>0 \<le> min \<le> max\<close>: the speed of the result is the minimum when the ball was slower,
  the maximum when it was faster, its own speed otherwise, and so always within the
  limits.
\<close>

lemma applySpeedLimits_moving:
  assumes "calculateBallSpeed ball \<noteq> 0" "0 \<le> minBallSpeed config"
    "minBallSpeed config \<le> maxBallSpeed config"
  shows "\<exists>v. velocitySpeed (applySpeedLimits ball config) = Some v
     \<and> minBallSpeed config \<le> v \<and> v \<le> maxBallSpeed config
     \<and> v = (if calculateBallSpeed ball < minBallSpeed config then minBallSpeed config
            else if calculateBallSpeed ball > maxBallSpeed config then maxBallSpeed config
            else calculateBallSpeed ball)"
  using assms sqrt_of_scaled [of "calculateBallSpeed ball" "ball_dx ball" "ball_dy ball"]
  by (auto simp: applySpeedLimits_def Let_def calculateBallSpeed_def)

lemma applySpeedLimits_unchanged:
  assumes "minBallSpeed config \<le> calculateBallSpeed ball"
    "calculateBallSpeed ball \<le> maxBallSpeed config"
  shows "applySpeedLimits ball config = Velocity (ball_dx ball) (ball_dy ball)"
  using assms by (simp add: applySpeedLimits_def Let_def)

text \<open>
  C2. The claim: for every ball, also one with \<open>dx = dy = 0\<close>, the velocity that
  \<^verbatim>\<open>applySpeedLimits\<close> returns has a speed within the limits. For the ball at rest the
  function divides the minimum speed by the speed 0 and multiplies the zero components by
  the infinite quotient: under the default configuration both components of the result
  are \<^verbatim>\<open>NaN\<close>, and the result has no speed at all.
\<close>

theorem applySpeedLimits_resting_ball:
  "calculateBallSpeed restingBall = 0
   \<and> applySpeedLimits restingBall DEFAULT_PHYSICS_CONFIG = NaNVelocity
   \<and> velocitySpeed (applySpeedLimits restingBall DEFAULT_PHYSICS_CONFIG) = None"
  by (simp add: applySpeedLimits_def calculateBallSpeed_def DEFAULT_PHYSICS_CONFIG_def
      restingBall_def)

section \<open>Prediction\<close>










section \<open>The AI paddle\<close>

lemma aiPaddle_two_frames:
  "aiPaddleAfter (n + 2) aiPaddle 345 600 (getAIConfig Hard)
     = aiPaddleAfter n aiPaddle 345 600 (getAIConfig Hard)"
  by (simp add: updateAIPaddle_def aiPaddle_def)

text \<open>
  C4. The claim: at the hard tier (speed 7.5, dead zone 2) the AI paddle chasing a fixed
  target comes to rest and never alternates around it. With the paddle at 300 (height 80,
  so centre 340) and the target at 345, the paddle is 5 short, steps 7.5 down, is then
  2.5 past the target, which is still outside the dead zone of 2, steps 7.5 back up, and
  so on for ever: after an even number of frames it is at 300, after an odd number at
  307.5.
\<close>

theorem hard_ai_paddle_oscillates:
  "aiPaddleAfter n aiPaddle 345 600 (getAIConfig Hard) = (if even n then 300 else 615 / 2)"
proof (induction n rule: less_induct)
  case (less n)
  show ?case
  proof (cases "n < 2")
    case True
    then have "n = 0 \<or> n = 1" by auto
    then show ?thesis by (auto simp: updateAIPaddle_def aiPaddle_def)
  next
    case False
    then obtain m where m: "n = m + 2"
      by (metis add.commute le_add_diff_inverse not_less)
    then have "m < n" by simp
    from less.IH [OF this] show ?thesis unfolding m aiPaddle_two_frames by simp
  qed
qed

section \<open>Degenerate collisions\<close>

text \<open>
  C8. When the centre of the circle is its own closest point of the rectangle (it lies in
  or on the rectangle), \<^verbatim>\<open>checkCircleRectCollision\<close> reports a collision and the normal
  is horizontal: \<open>(-1, 0)\<close> when the centre is left of the rectangle's mid-x, \<open>(1, 0)\<close>
  otherwise. When two circles with the same centre collide,
  \<^verbatim>\<open>checkCircleCircleCollision\<close> returns the normal \<open>(1, 0)\<close>.
\<close>

theorem degenerate_collision_normals:
  "(circ_x circle = max (rect_x rect) (min (circ_x circle) (rect_x rect + rect_width rect))
      \<and> circ_y circle = max (rect_y rect) (min (circ_y circle) (rect_y rect + rect_height rect))
    \<longrightarrow> collided (checkCircleRectCollision circle rect)
      \<and> normal (checkCircleRectCollision circle rect) =
          Some \<lparr> vec_x = (if circ_x circle < rect_x rect + rect_width rect / 2 then - 1 else 1),
                 vec_y = 0 \<rparr>)
   \<and> (circ_x circle1 = circ_x circle2 \<and> circ_y circle1 = circ_y circle2
        \<and> collided (checkCircleCircleCollision circle1 circle2)
      \<longrightarrow> normal (checkCircleCircleCollision circle1 circle2) = Some \<lparr> vec_x = 1, vec_y = 0 \<rparr>)"
  by (simp add: checkCircleRectCollision_def checkCircleCircleCollision_def Let_def
      split: if_splits)

theorem degenerate_collision_normals_witness:
  "collided (checkCircleRectCollision \<lparr> circ_x = 3, circ_y = 50, circ_radius = 8 \<rparr>
       \<lparr> rect_x = 0, rect_y = 0, rect_width = 10, rect_height = 100 \<rparr>)
   \<and> normal (checkCircleRectCollision \<lparr> circ_x = 3, circ_y = 50, circ_radius = 8 \<rparr>
       \<lparr> rect_x = 0, rect_y = 0, rect_width = 10, rect_height = 100 \<rparr>)
     = Some \<lparr> vec_x = - 1, vec_y = 0 \<rparr>
   \<and> collided (checkCircleCircleCollision \<lparr> circ_x = 3, circ_y = 50, circ_radius = 8 \<rparr>
       \<lparr> circ_x = 3, circ_y = 50, circ_radius = 20 \<rparr>)
   \<and> normal (checkCircleCircleCollision \<lparr> circ_x = 3, circ_y = 50, circ_radius = 8 \<rparr>
       \<lparr> circ_x = 3, circ_y = 50, circ_radius = 20 \<rparr>)
     = Some \<lparr> vec_x = 1, vec_y = 0 \<rparr>"
proof -
  have hit: "collided (checkCircleCircleCollision \<lparr> circ_x = 3, circ_y = 50, circ_radius = 8 \<rparr>
       \<lparr> circ_x = 3, circ_y = 50, circ_radius = 20 \<rparr>)"
    by (simp add: checkCircleCircleCollision_def)
  show ?thesis
    using hit degenerate_collision_normals
      [of "\<lparr> circ_x = 3, circ_y = 50, circ_radius = 8 \<rparr>"
          "\<lparr> rect_x = 0, rect_y = 0, rect_width = 10, rect_height = 100 \<rparr>"
          "\<lparr> circ_x = 3, circ_y = 50, circ_radius = 8 \<rparr>"
          "\<lparr> circ_x = 3, circ_y = 50, circ_radius = 20 \<rparr>"]
    by simp
qed

section \<open>Power-ups: radius, owner, activation\<close>








text \<open>
  The hook animates its power-ups with the same formula, and the power-ups it spawns
  have a \<^verbatim>\<open>maxFloatRadius\<close> of 20 or more, so their radius does reach the cap.
\<close>

lemma animatePowerUp_agrees:
  "animatePowerUp env gameState powerUp =
     updatePowerUpAnimation powerUp (gs_canvasWidth gameState) (gs_canvasHeight gameState)
       (now env)"
  unfolding animatePowerUp_def updatePowerUpAnimation_def by (rule refl)

lemma spawnPowerUp_maxFloatRadius:
  assumes "0 \<le> rndMaxFloatRadius env"
  shows "gs_powerUps (spawnPowerUp env gameState) = gs_powerUps gameState @ [powerUp]
           \<Longrightarrow> 20 \<le> pu_maxFloatRadius powerUp"
  using assms by (auto simp: spawnPowerUp_def Let_def)


lemma multiBallGame_facts:
  "mb_active (multiBall (gs_activePowerUps multiBallGame))"
  "pu_type (samplePowerUp MultiBall 20) = MultiBall"
  "length (mb_extraBalls (multiBall (gs_activePowerUps multiBallGame))) = 2"
  "mb_timeLeft (multiBall (gs_activePowerUps multiBallGame)) = 600"
  "gs_powerUps multiBallGame = [samplePowerUp MultiBall 20]"
  by (simp_all add: multiBallGame_def activatePowerUp_def samplePowerUp_def Let_def
      initialGameState_def)

text \<open>
  C5. Activating a multi-ball power-up while the multi-ball effect is active leaves the
  multi-ball slot as it was: the same flag, the same time left, the same extra balls.
\<close>

theorem multiBall_reactivation_keeps_slot:
  assumes "mb_active (multiBall (gs_activePowerUps gameState))" "pu_type powerUp = MultiBall"
  shows "multiBall (gs_activePowerUps (activatePowerUp env powerUp player gameState))
           = multiBall (gs_activePowerUps gameState)
     \<and> length (mb_extraBalls
          (multiBall (gs_activePowerUps (activatePowerUp env powerUp player gameState))))
         = length (mb_extraBalls (multiBall (gs_activePowerUps gameState)))"
  using assms by (simp add: activatePowerUp_def Let_def)

theorem multiBall_reactivation_keeps_slot_witness:
  "mb_active (multiBall (gs_activePowerUps multiBallGame))
   \<and> pu_type (samplePowerUp MultiBall 20) = MultiBall
   \<and> multiBall (gs_activePowerUps
        (activatePowerUp quietEnv (samplePowerUp MultiBall 20) (Some RightSide) multiBallGame))
       = multiBall (gs_activePowerUps multiBallGame)
   \<and> length (mb_extraBalls (multiBall (gs_activePowerUps
        (activatePowerUp quietEnv (samplePowerUp MultiBall 20) (Some RightSide) multiBallGame))))
       = 2"
  using multiBall_reactivation_keeps_slot
      [OF multiBallGame_facts(1) multiBallGame_facts(2), of quietEnv "Some RightSide"]
  by (simp add: multiBallGame_facts)

text \<open>
  C10. Also when the multi-ball effect is active, activating a picked-up multi-ball
  power-up takes every power-up with its id, so the power-up itself, off the floating
  list and draws a new spawn timer, \<open>(2 + 8 r) 60\<close> frames for the random number \<open>r\<close>
  (between 120 and 600 for \<open>r\<close> in \<open>[0, 1)\<close>), while all the active effects, with the
  extra balls and the time left, stay as they were.
\<close>

theorem active_multiBall_pickup_is_consumed:
  assumes "mb_active (multiBall (gs_activePowerUps gameState))" "pu_type powerUp = MultiBall"
  shows "gs_powerUps (activatePowerUp env powerUp player gameState)
           = filter (\<lambda>p. pu_id p \<noteq> pu_id powerUp) (gs_powerUps gameState)
     \<and> powerUp \<notin> set (gs_powerUps (activatePowerUp env powerUp player gameState))
     \<and> gs_powerUpSpawnTimer (activatePowerUp env powerUp player gameState)
         = (2 + rndSpawnTimer env * 8) * 60
     \<and> (0 \<le> rndSpawnTimer env \<and> rndSpawnTimer env < 1 \<longrightarrow>
          120 \<le> gs_powerUpSpawnTimer (activatePowerUp env powerUp player gameState)
          \<and> gs_powerUpSpawnTimer (activatePowerUp env powerUp player gameState) < 600)
     \<and> gs_activePowerUps (activatePowerUp env powerUp player gameState)
         = gs_activePowerUps gameState
     \<and> gs_ball (activatePowerUp env powerUp player gameState) = gs_ball gameState"
  using assms by (simp add: activatePowerUp_def Let_def)

theorem active_multiBall_pickup_is_consumed_witness:
  "mb_active (multiBall (gs_activePowerUps multiBallGame))
   \<and> pu_type (samplePowerUp MultiBall 20) = MultiBall
   \<and> gs_powerUps multiBallGame = [samplePowerUp MultiBall 20]
   \<and> gs_powerUps
        (activatePowerUp quietEnv (samplePowerUp MultiBall 20) (Some RightSide) multiBallGame) = []
   \<and> gs_powerUpSpawnTimer
        (activatePowerUp quietEnv (samplePowerUp MultiBall 20) (Some RightSide) multiBallGame) = 360
   \<and> gs_activePowerUps
        (activatePowerUp quietEnv (samplePowerUp MultiBall 20) (Some RightSide) multiBallGame)
       = gs_activePowerUps multiBallGame"
  using active_multiBall_pickup_is_consumed
      [OF multiBallGame_facts(1) multiBallGame_facts(2), of quietEnv "Some RightSide"]
  by (simp add: multiBallGame_facts quietEnv_def)

section \<open>At most one floating power-up\<close>





lemma resetBall_powerUps [simp]: "gs_powerUps (resetBall a b g) = gs_powerUps g"
  by (simp add: resetBall_def)

lemma resetGame_powerUps [simp]: "gs_powerUps (resetGame env g) = []"
  by (simp add: resetGame_def)

lemma steps_keep_powerUps [simp]:
  "gs_powerUps (effectsStep g) = gs_powerUps g"
  "gs_powerUps (leftPaddleStep g) = gs_powerUps g"
  "gs_powerUps (moveStep g) = gs_powerUps g"
  "gs_powerUps (wallStep g) = gs_powerUps g"
  "gs_powerUps (leftBounceStep env g) = gs_powerUps g"
  "gs_powerUps (rightBounceStep env g) = gs_powerUps g"
  "gs_powerUps (extraBallsStep g) = gs_powerUps g"
  "gs_powerUps (scoreStep env g) = gs_powerUps g"
  "gs_powerUps (winStep g) = gs_powerUps g"
  "length (gs_powerUps (animateStep env g)) = length (gs_powerUps g)"
  by (simp_all add: effectsStep_def leftPaddleStep_def moveStep_def wallStep_def
      leftBounceStep_def rightBounceStep_def extraBallsStep_def scoreStep_def winStep_def
      animateStep_def Let_def)

lemma moveAIPaddle_powerUps [simp]: "gs_powerUps (moveAIPaddle c g) = gs_powerUps g"
  by (simp add: moveAIPaddle_def Let_def)






lemma firstPowerUpHit_member: "firstPowerUpHit b ps = Some p \<Longrightarrow> p \<in> set ps"
  by (induction ps) (auto simp: Let_def split: if_splits)



section \<open>The speed of the primary ball after a paddle bounce\<close>

text \<open>
  No step of the game writes the height of a paddle: it is 80 in every state of a game,
  so the hit position of a bounce is never a quotient by zero.
\<close>

lemma steps_keep_paddleHeights [simp]:
  "paddleHeights (resetBall r1 r2 g) = paddleHeights g"
  "paddleHeights (resetGame env g) = paddleHeights g"
  "paddleHeights (resetKeyStep env g) = paddleHeights g"
  "paddleHeights (spawnStep env g) = paddleHeights g"
  "paddleHeights (animateStep env g) = paddleHeights g"
  "paddleHeights (effectsStep g) = paddleHeights g"
  "paddleHeights (leftPaddleStep g) = paddleHeights g"
  "paddleHeights (moveStep g) = paddleHeights g"
  "paddleHeights (pickupStep env g) = paddleHeights g"
  "paddleHeights (wallStep g) = paddleHeights g"
  "paddleHeights (leftBounceStep env g) = paddleHeights g"
  "paddleHeights (rightBounceStep env g) = paddleHeights g"
  "paddleHeights (extraBallsStep g) = paddleHeights g"
  "paddleHeights (scoreStep env g) = paddleHeights g"
  "paddleHeights (winStep g) = paddleHeights g"
  "paddleHeights (moveAIPaddle c g) = paddleHeights g"
  "paddleHeights (handleEvents k t1 t2 aiOn tier g) = paddleHeights g"
  "paddleHeights (g\<lparr> gs_ai := newAI \<rparr>) = paddleHeights g"
  by (simp_all add: paddleHeights_def resetBall_def resetGame_def resetKeyStep_def spawnStep_def
      spawnPowerUp_def animateStep_def effectsStep_def leftPaddleStep_def playerPaddle_def
      moveStep_def pickupStep_def activatePowerUp_def wallStep_def leftBounceStep_def
      rightBounceStep_def extraBallsStep_def scoreStep_def winStep_def moveAIPaddle_def
      handleEvents_def Let_def split: option.splits)

lemma updateAI_paddleHeights:
  "updateAI env g = Some g' \<Longrightarrow> paddleHeights g' = paddleHeights g"
  by (auto simp: updateAI_def Let_def split: if_splits option.splits)

lemma rightPaddleStep_paddleHeights:
  "rightPaddleStep env g = Some g' \<Longrightarrow> paddleHeights g' = paddleHeights g"
  by (auto simp: rightPaddleStep_def playerPaddle_def Let_def paddleHeights_def
      split: if_splits dest!: updateAI_paddleHeights)

lemma updateGame_paddleHeights:
  "updateGame env g = Some g' \<Longrightarrow> paddleHeights g' = paddleHeights g"
  by (auto simp: updateGame_def Let_def split: if_splits dest!: rightPaddleStep_paddleHeights)

lemma reachable_paddleHeights: "reachable g \<Longrightarrow> paddleHeights g = (80, 80)"
proof (induction rule: reachable.induct)
  case (start env width height)
  show ?case by simp (simp add: paddleHeights_def initialGameState_def)
next
  case (reset gameState env)
  then show ?case by simp
next
  case (events gameState keys touchLeft touchRight aiOn tier)
  then show ?case by simp
next
  case (tick gameState env after)
  then show ?case using updateGame_paddleHeights by metis
qed


lemma bouncePrimary_shape:
  "\<exists>dy. bouncePrimary r1 r2 fx p b =
     (let dx = - ball_dx b * (11 / 10); currentSpeed = sqrt (dx * dx + dy * dy)
      in if currentSpeed < 4 then
           b\<lparr> ball_x := fx, ball_dx := dx * (4 / currentSpeed),
              ball_dy := dy * (4 / currentSpeed) \<rparr>
         else b\<lparr> ball_x := fx, ball_dx := dx, ball_dy := dy \<rparr>)"
  unfolding bouncePrimary_def Let_def by blast

text \<open>The bounce of the hook keeps the lower limit: the ball leaves a paddle at speed 4 or more.\<close>

lemma bouncePrimary_min_speed:
  assumes "ball_dx b \<noteq> 0"
  shows "4 \<le> calculateBallSpeed (bouncePrimary r1 r2 fx p b)"
proof -
  define dx where "dx = - ball_dx b * (11 / 10)"
  obtain dy where shape: "bouncePrimary r1 r2 fx p b =
     (let currentSpeed = sqrt (dx * dx + dy * dy)
      in if currentSpeed < 4 then
           b\<lparr> ball_x := fx, ball_dx := dx * (4 / currentSpeed),
              ball_dy := dy * (4 / currentSpeed) \<rparr>
         else b\<lparr> ball_x := fx, ball_dx := dx, ball_dy := dy \<rparr>)"
    using bouncePrimary_shape [of r1 r2 fx p b] unfolding dx_def Let_def by blast
  have "dx \<noteq> 0" using assms by (simp add: dx_def)
  then have "0 < dx * dx + dy * dy"
    by (metis add_pos_nonneg not_real_square_gt_zero zero_le_square)
  then have "0 < sqrt (dx * dx + dy * dy)" by (rule real_sqrt_gt_zero)
  then have nz: "sqrt (dx * dx + dy * dy) \<noteq> 0" by (metis less_irrefl)
  show ?thesis
    using sqrt_of_scaled [OF refl nz, of 4]
    by (auto simp: shape Let_def calculateBallSpeed_def)
qed

text \<open>
  It has no upper limit: a ball that comes in with \<open>1.1 |dx| > 15\<close> leaves faster than
  15, whatever the paddle and the random numbers. Ten bounces of a served ball
  (\<open>|dx| = 6\<close>) are enough for that: six times the tenth power of 1.1 is above 15.
\<close>

lemma bouncePrimary_no_max_speed:
  assumes "15 < 11 / 10 * \<bar>ball_dx b\<bar>"
  shows "15 < calculateBallSpeed (bouncePrimary r1 r2 fx p b)"
proof -
  define dx where "dx = - ball_dx b * (11 / 10)"
  obtain dy where shape: "bouncePrimary r1 r2 fx p b =
     (let currentSpeed = sqrt (dx * dx + dy * dy)
      in if currentSpeed < 4 then
           b\<lparr> ball_x := fx, ball_dx := dx * (4 / currentSpeed),
              ball_dy := dy * (4 / currentSpeed) \<rparr>
         else b\<lparr> ball_x := fx, ball_dx := dx, ball_dy := dy \<rparr>)"
    using bouncePrimary_shape [of r1 r2 fx p b] unfolding dx_def Let_def by blast
  have big: "15 < \<bar>dx\<bar>" using assms by (simp add: dx_def abs_mult)
  have "\<bar>dx\<bar> = sqrt (dx * dx)" by simp
  also have "\<dots> \<le> sqrt (dx * dx + dy * dy)" by (rule real_sqrt_le_mono) simp
  finally have "15 < sqrt (dx * dx + dy * dy)" using big by simp
  then show ?thesis by (simp add: shape Let_def calculateBallSpeed_def)
qed

text \<open>
  The other tick function of the repository, in \<^verbatim>\<open>PongGame.tsx\<close>, bounces the primary
  ball with \<^verbatim>\<open>calculatePaddleBounce\<close> and then stores what \<^verbatim>\<open>applySpeedLimits\<close> returns
  for the bounced ball: there the speed after a bounce is between 4 and 15.
\<close>

lemma engine_bounce_within_limits:
  assumes "ball_dx ball \<noteq> 0"
    and "calculatePaddleBounce r1 r2 ball paddleY paddleHeight paddleVelocity
           DEFAULT_PHYSICS_CONFIG = Velocity vx vy"
  shows "\<exists>v. velocitySpeed
           (applySpeedLimits (ball\<lparr> ball_dx := vx, ball_dy := vy \<rparr>) DEFAULT_PHYSICS_CONFIG)
             = Some v \<and> 4 \<le> v \<and> v \<le> 15"
proof -
  have "vx = - ball_dx ball * (11 / 10)"
    using assms(2) by (simp add: calculatePaddleBounce_def Let_def DEFAULT_PHYSICS_CONFIG_def)
  then have "vx \<noteq> 0" using assms(1) by simp
  then have "0 < vx * vx + vy * vy"
    by (metis add_pos_nonneg not_real_square_gt_zero zero_le_square)
  then have pos: "0 < sqrt (vx * vx + vy * vy)" by (rule real_sqrt_gt_zero)
  have speed: "calculateBallSpeed (ball\<lparr> ball_dx := vx, ball_dy := vy \<rparr>)
      = sqrt (vx * vx + vy * vy)"
    by (simp add: calculateBallSpeed_def)
  have "calculateBallSpeed (ball\<lparr> ball_dx := vx, ball_dy := vy \<rparr>) \<noteq> 0"
    unfolding speed using pos by (metis less_irrefl)
  from applySpeedLimits_moving [OF this, of DEFAULT_PHYSICS_CONFIG]
  show ?thesis by (auto simp: DEFAULT_PHYSICS_CONFIG_def)
qed

subsection \<open>The quiet flight of the served ball\<close>






















subsection \<open>The tick of the drag\<close>

















end
